theory Spec2Isabelle
  imports Main "HOL-Library.Sublist" "HOL-Library.AList"
    "HOL-Library.List_Lexorder" "HOL-Library.Char_ord"
begin

section \<open>Data model of \<^verbatim>\<open>v1.py\<close>\<close>

text \<open>
  A cell of a row is a JSON scalar: an integer or a string.  A row is a JSON list of cells.
\<close>

datatype scalar = VInt int | VStr string

type_synonym row = "scalar list"

text \<open>
  \<^verbatim>\<open>ColumnConfig = namedtuple('ColumnConfig', ['table', 'name', 'type', 'index'])\<close>.
  The type is the string of the table file's header (\<^verbatim>\<open>'int'\<close>, \<^verbatim>\<open>'str'\<close>, or anything
  else the file says: the loader does not check it); the index comes from \<^verbatim>\<open>enumerate\<close>
  or from an addition of such indexes, so it is a natural number.
\<close>

record ColumnConfig =
  cc_table :: string
  cc_name :: string
  cc_type :: string
  cc_index :: nat

text \<open>
  A column reference is the dict \<^verbatim>\<open>{'table': ..., 'name': ...}\<close> of a query; the table is a
  string or \<^verbatim>\<open>None\<close>.
\<close>

record column_ref =
  cr_table :: "string option"
  cr_name :: string

text \<open>
  A term of a \<^verbatim>\<open>where\<close> entry is a dict: under the key \<^verbatim>\<open>'column'\<close> it holds a column
  reference, under any other key (\<^verbatim>\<open>'lit_int'\<close>, \<^verbatim>\<open>'lit_str'\<close>) a scalar.
\<close>

record where_term =
  column :: "column_ref option"
  lits :: "string \<rightharpoonup> scalar"

text \<open>
  \<^verbatim>\<open>class Table\<close>: the tuple of the column configurations and the tuple of the rows.
\<close>

record Table =
  columns :: "ColumnConfig list"
  rows :: "row list"

text \<open>
  Every \<^verbatim>\<open>raise\<close> of the evaluation engine is a value.  The first six are the
  \<^verbatim>\<open>SquidError\<close>s, named by what their message says, with the values the message
  interpolates where a property needs them; the others are the exceptions of Python itself
  (\<^verbatim>\<open>KeyError\<close> of a dict lookup, \<^verbatim>\<open>TypeError\<close> of an ordering between an integer and a
  string, \<^verbatim>\<open>IndexError\<close> of a list index out of range).
\<close>

datatype error =
    ColumnNotFound column_ref
  | AmbiguousColumn column_ref "string list"
  | TypeMismatch
  | UnsupportedOperator string string
  | NotColumnToLiteral
  | MalformedPredicate
  | DuplicateSelectName string
  | KeyError
  | TypeError
  | IndexError

text \<open>
  The truth value Python gives an optional string used as a condition
  (\<^verbatim>\<open>if column_ref['table']:\<close>, \<^verbatim>\<open>if select_query['as']:\<close>): \<^verbatim>\<open>None\<close> and the empty string
  are false.
\<close>

fun truthy :: "string option \<Rightarrow> bool" where
  "truthy None = False"
| "truthy (Some s) = (s \<noteq> [])"

text \<open>\<^verbatim>\<open>row[i]\<close> on a list, for an index that is not negative.\<close>

definition row_get :: "row \<Rightarrow> nat \<Rightarrow> error + scalar" where
  "row_get r i = (if i < length r then Inr (r ! i) else Inl IndexError)"

section \<open>Operators\<close>

definition SUPPORTED_OPS_BY_COLUMN_TYPE :: "string \<rightharpoonup> string list" where
  "SUPPORTED_OPS_BY_COLUMN_TYPE = map_of
     [(''int'', [''='', ''!='', ''>'', ''>='', ''<'', ''<='']),
      (''str'', [''='', ''!=''])]"

definition equal_to :: "scalar \<Rightarrow> scalar \<Rightarrow> error + bool" where
  "equal_to l r = Inr (l = r)"

definition not_equal_to :: "scalar \<Rightarrow> scalar \<Rightarrow> error + bool" where
  "not_equal_to l r = Inr (l \<noteq> r)"

text \<open>
  Python orders two integers and two strings (by code points, which is the order of their
  bytes); an integer against a string raises \<^verbatim>\<open>TypeError\<close>.
\<close>

fun greater_than :: "scalar \<Rightarrow> scalar \<Rightarrow> error + bool" where
  "greater_than (VInt a) (VInt b) = Inr (a > b)"
| "greater_than (VStr a) (VStr b) = Inr (a > b)"
| "greater_than _ _ = Inl TypeError"

fun less_than :: "scalar \<Rightarrow> scalar \<Rightarrow> error + bool" where
  "less_than (VInt a) (VInt b) = Inr (a < b)"
| "less_than (VStr a) (VStr b) = Inr (a < b)"
| "less_than _ _ = Inl TypeError"

definition greater_than_or_equal_to :: "scalar \<Rightarrow> scalar \<Rightarrow> error + bool" where
  "greater_than_or_equal_to l r =
     (case greater_than l r of
        Inl e \<Rightarrow> Inl e
      | Inr b \<Rightarrow> if b then Inr True else equal_to l r)"

definition less_than_or_equal_to :: "scalar \<Rightarrow> scalar \<Rightarrow> error + bool" where
  "less_than_or_equal_to l r =
     (case less_than l r of
        Inl e \<Rightarrow> Inl e
      | Inr b \<Rightarrow> if b then Inr True else equal_to l r)"

definition OPERATOR_FUNCS :: "string \<rightharpoonup> (scalar \<Rightarrow> scalar \<Rightarrow> error + bool)" where
  "OPERATOR_FUNCS = map_of
     [(''='', equal_to),
      (''!='', not_equal_to),
      (''>'', greater_than),
      (''>='', greater_than_or_equal_to),
      (''<'', less_than),
      (''<='', less_than_or_equal_to)]"

section \<open>Column resolution: \<^verbatim>\<open>Table.col_config_by_column_ref\<close>\<close>

text \<open>
  The list \<^verbatim>\<open>conditions\<close> that the loop builds for one column: the comparison of the tables
  only when the reference's table is true as a condition, then the comparison of the names.
\<close>

definition conditions :: "column_ref \<Rightarrow> ColumnConfig \<Rightarrow> bool list" where
  "conditions column_ref col_config =
     (if truthy (cr_table column_ref)
      then [Some (cc_table col_config) = cr_table column_ref] else [])
     @ [cc_name col_config = cr_name column_ref]"

text \<open>The loop over \<^verbatim>\<open>self.columns\<close>, appending to \<^verbatim>\<open>found_columns\<close>.\<close>

fun find_columns :: "column_ref \<Rightarrow> ColumnConfig list \<Rightarrow> ColumnConfig list \<Rightarrow> ColumnConfig list" where
  "find_columns column_ref [] found_columns = found_columns"
| "find_columns column_ref (col_config # cols) found_columns =
     find_columns column_ref cols
       (if list_all id (conditions column_ref col_config)
        then found_columns @ [col_config] else found_columns)"

definition col_config_by_column_ref :: "Table \<Rightarrow> column_ref \<Rightarrow> error + ColumnConfig" where
  "col_config_by_column_ref self column_ref =
     (let found_columns = find_columns column_ref (columns self) [] in
      if length found_columns < 1 then Inl (ColumnNotFound column_ref)
      else if length found_columns > 1
      then Inl (AmbiguousColumn column_ref (map cc_table found_columns))
      else Inr (found_columns ! 0))"

section \<open>Aliasing: \<^verbatim>\<open>Table.apply_as_exp\<close>\<close>

definition apply_as_exp :: "Table \<Rightarrow> string \<Rightarrow> Table" where
  "apply_as_exp self as_name =
     \<lparr>columns = map (\<lambda>col_config. col_config\<lparr>cc_table := as_name\<rparr>) (columns self),
      rows = rows self\<rparr>"

section \<open>Cross product: \<^verbatim>\<open>Table.merge_tables\<close>\<close>

text \<open>The inner loop over \<^verbatim>\<open>two.rows\<close> and the outer loop over \<^verbatim>\<open>one.rows\<close>.\<close>

fun merge_inner :: "row \<Rightarrow> row list \<Rightarrow> row list \<Rightarrow> row list" where
  "merge_inner one_row [] new_rows = new_rows"
| "merge_inner one_row (two_row # two_rows) new_rows =
     merge_inner one_row two_rows (new_rows @ [one_row @ two_row])"

fun merge_outer :: "row list \<Rightarrow> row list \<Rightarrow> row list \<Rightarrow> row list" where
  "merge_outer [] two_rows new_rows = new_rows"
| "merge_outer (one_row # one_rows) two_rows new_rows =
     merge_outer one_rows two_rows (merge_inner one_row two_rows new_rows)"

definition merge_tables :: "Table \<Rightarrow> Table \<Rightarrow> Table" where
  "merge_tables one two =
     (let to_add = length (columns one);
          two_columns_fixed = map (\<lambda>col. col\<lparr>cc_index := cc_index col + to_add\<rparr>) (columns two);
          new_columns = columns one @ two_columns_fixed
      in \<lparr>columns = new_columns, rows = merge_outer (rows one) (rows two) []\<rparr>)"

section \<open>Predicates\<close>

text \<open>
  Membership of a key in a term's dict (\<^verbatim>\<open>'column' in left\<close>,
  \<^verbatim>\<open>literal_value_key not in where_query.literal_term\<close>) and the two lookups
  \<^verbatim>\<open>term['column']\<close> and \<^verbatim>\<open>term[literal_value_key]\<close>, which raise \<^verbatim>\<open>KeyError\<close> on a
  missing key.
\<close>

definition has_key :: "where_term \<Rightarrow> string \<Rightarrow> bool" where
  "has_key t k = (if k = ''column'' then column t \<noteq> None else lits t k \<noteq> None)"

definition term_column :: "where_term \<Rightarrow> error + column_ref" where
  "term_column t = (case column t of None \<Rightarrow> Inl KeyError | Some r \<Rightarrow> Inr r)"

definition term_lit :: "where_term \<Rightarrow> string \<Rightarrow> error + scalar" where
  "term_lit t k = (case lits t k of None \<Rightarrow> Inl KeyError | Some v \<Rightarrow> Inr v)"

text \<open>Python's \<^verbatim>\<open>needle in haystack\<close> on two strings: the substring test.\<close>

fun str_in :: "string \<Rightarrow> string \<Rightarrow> bool" where
  "str_in needle [] = (needle = [])"
| "str_in needle (c # cs) = (prefix needle (c # cs) \<or> str_in needle cs)"

datatype side = Left | Right

text \<open>
  \<^verbatim>\<open>class ColumnToLiteralWhere(namedtuple(..., ['op', 'left', 'right', 'column_side',
  'literal_side']))\<close> and \<^verbatim>\<open>class ColumnToColumnWhere(namedtuple(..., ['op', 'left',
  'right']))\<close>.
\<close>

record ColumnToLiteralWhere =
  l_op :: string
  l_left :: where_term
  l_right :: where_term
  column_side :: side
  literal_side :: side

record ColumnToColumnWhere =
  c_op :: string
  c_left :: where_term
  c_right :: where_term

datatype where_query =
    ColumnToLiteral ColumnToLiteralWhere
  | ColumnToColumn ColumnToColumnWhere

text \<open>
  \<^verbatim>\<open>ColumnToLiteralWhere.__new__\<close>.  The second operand of the second and of the third test
  is the source's: the string \<^verbatim>\<open>'right'\<close>, not the term \<^verbatim>\<open>right\<close>.
\<close>

definition ColumnToLiteralWhere_new ::
    "string \<Rightarrow> where_term \<Rightarrow> where_term \<Rightarrow> error + ColumnToLiteralWhere" where
  "ColumnToLiteralWhere_new opr left right =
     (if has_key left ''column'' \<and> has_key right ''column'' then Inl NotColumnToLiteral
      else if has_key left ''column'' \<and> \<not> str_in ''column'' ''right''
      then Inr \<lparr>l_op = opr, l_left = left, l_right = right,
                column_side = Left, literal_side = Right\<rparr>
      else if \<not> has_key left ''column'' \<and> str_in ''column'' ''right''
      then Inr \<lparr>l_op = opr, l_left = left, l_right = right,
                column_side = Right, literal_side = Left\<rparr>
      else Inl MalformedPredicate)"

definition getattr :: "ColumnToLiteralWhere \<Rightarrow> side \<Rightarrow> where_term" where
  "getattr q s = (case s of Left \<Rightarrow> l_left q | Right \<Rightarrow> l_right q)"

definition column_term :: "ColumnToLiteralWhere \<Rightarrow> where_term" where
  "column_term q = getattr q (column_side q)"

definition literal_term :: "ColumnToLiteralWhere \<Rightarrow> where_term" where
  "literal_term q = getattr q (literal_side q)"

text \<open>
  An entry of the query's \<^verbatim>\<open>where\<close> list, and \<^verbatim>\<open>build_where_queries\<close>, which builds one
  predicate for each entry.
\<close>

record raw_where =
  w_op :: string
  w_left :: where_term
  w_right :: where_term

fun build_where_queries :: "raw_where list \<Rightarrow> where_query list \<Rightarrow> error + where_query list" where
  "build_where_queries [] built_queries = Inr built_queries"
| "build_where_queries (w # ws) built_queries =
     (if has_key (w_left w) ''column'' \<and> has_key (w_right w) ''column''
      then build_where_queries ws
             (built_queries @ [ColumnToColumn \<lparr>c_op = w_op w, c_left = w_left w, c_right = w_right w\<rparr>])
      else case ColumnToLiteralWhere_new (w_op w) (w_left w) (w_right w) of
             Inl e \<Rightarrow> Inl e
           | Inr q \<Rightarrow> build_where_queries ws (built_queries @ [ColumnToLiteral q]))"

text \<open>
  The loop of both filters: \<^verbatim>\<open>for row in self.rows: if <test>: new_rows.append(row)\<close>.
  An exception of the test ends the loop.
\<close>

fun filter_rows :: "(row \<Rightarrow> error + bool) \<Rightarrow> row list \<Rightarrow> row list \<Rightarrow> error + row list" where
  "filter_rows test [] new_rows = Inr new_rows"
| "filter_rows test (r # rest) new_rows =
     (case test r of
        Inl e \<Rightarrow> Inl e
      | Inr b \<Rightarrow> filter_rows test rest (if b then new_rows @ [r] else new_rows))"

text \<open>
  The tests of the three loops:
  \<^verbatim>\<open>operator_func(row[left_col.index], row[right_col.index])\<close>,
  \<^verbatim>\<open>operator_func(row[col_config.index], literal_value)\<close> and
  \<^verbatim>\<open>operator_func(literal_value, row[col_config.index])\<close>.
\<close>

definition column_column_test ::
    "(scalar \<Rightarrow> scalar \<Rightarrow> error + bool) \<Rightarrow> ColumnConfig \<Rightarrow> ColumnConfig \<Rightarrow> row \<Rightarrow> error + bool" where
  "column_column_test operator_func left_col right_col r =
     (case row_get r (cc_index left_col) of
        Inl e \<Rightarrow> Inl e
      | Inr a \<Rightarrow> (case row_get r (cc_index right_col) of
                    Inl e \<Rightarrow> Inl e
                  | Inr b \<Rightarrow> operator_func a b))"

definition column_literal_test ::
    "(scalar \<Rightarrow> scalar \<Rightarrow> error + bool) \<Rightarrow> ColumnConfig \<Rightarrow> scalar \<Rightarrow> row \<Rightarrow> error + bool" where
  "column_literal_test operator_func col_config literal_value r =
     (case row_get r (cc_index col_config) of
        Inl e \<Rightarrow> Inl e
      | Inr v \<Rightarrow> operator_func v literal_value)"

definition literal_column_test ::
    "(scalar \<Rightarrow> scalar \<Rightarrow> error + bool) \<Rightarrow> ColumnConfig \<Rightarrow> scalar \<Rightarrow> row \<Rightarrow> error + bool" where
  "literal_column_test operator_func col_config literal_value r =
     (case row_get r (cc_index col_config) of
        Inl e \<Rightarrow> Inl e
      | Inr v \<Rightarrow> operator_func literal_value v)"

definition apply_column_to_column_where_query ::
    "Table \<Rightarrow> ColumnToColumnWhere \<Rightarrow> error + Table" where
  "apply_column_to_column_where_query self where_query =
     (case term_column (c_left where_query) of Inl e \<Rightarrow> Inl e | Inr left_ref \<Rightarrow>
     (case col_config_by_column_ref self left_ref of Inl e \<Rightarrow> Inl e | Inr left_col \<Rightarrow>
     (case term_column (c_right where_query) of Inl e \<Rightarrow> Inl e | Inr right_ref \<Rightarrow>
     (case col_config_by_column_ref self right_ref of Inl e \<Rightarrow> Inl e | Inr right_col \<Rightarrow>
     (if cc_type left_col \<noteq> cc_type right_col then Inl TypeMismatch else
     (case SUPPORTED_OPS_BY_COLUMN_TYPE (cc_type left_col) of None \<Rightarrow> Inl KeyError | Some ops \<Rightarrow>
     (if c_op where_query \<notin> set ops
      then Inl (UnsupportedOperator (c_op where_query) (cc_type left_col)) else
     (case OPERATOR_FUNCS (c_op where_query) of None \<Rightarrow> Inl KeyError | Some operator_func \<Rightarrow>
     (case filter_rows (column_column_test operator_func left_col right_col) (rows self) [] of
        Inl e \<Rightarrow> Inl e
      | Inr new_rows \<Rightarrow> Inr \<lparr>columns = columns self, rows = new_rows\<rparr>)))))))))"

definition apply_column_to_literal_where_query ::
    "Table \<Rightarrow> ColumnToLiteralWhere \<Rightarrow> error + Table" where
  "apply_column_to_literal_where_query self where_query =
     (case term_column (column_term where_query) of Inl e \<Rightarrow> Inl e | Inr column_ref \<Rightarrow>
     (case col_config_by_column_ref self column_ref of Inl e \<Rightarrow> Inl e | Inr col_config \<Rightarrow>
     (let literal_value_key = ''lit_'' @ cc_type col_config in
     (if \<not> has_key (literal_term where_query) literal_value_key then Inl TypeMismatch else
     (case SUPPORTED_OPS_BY_COLUMN_TYPE (cc_type col_config) of None \<Rightarrow> Inl KeyError | Some ops \<Rightarrow>
     (if l_op where_query \<notin> set ops
      then Inl (UnsupportedOperator (l_op where_query) (cc_type col_config)) else
     (case OPERATOR_FUNCS (l_op where_query) of None \<Rightarrow> Inl KeyError | Some operator_func \<Rightarrow>
     (case term_lit (literal_term where_query) literal_value_key of Inl e \<Rightarrow> Inl e | Inr literal_value \<Rightarrow>
     (case filter_rows
             (case column_side where_query of
                Left \<Rightarrow> column_literal_test operator_func col_config literal_value
              | Right \<Rightarrow> literal_column_test operator_func col_config literal_value)
             (rows self) [] of
        Inl e \<Rightarrow> Inl e
      | Inr new_rows \<Rightarrow> Inr \<lparr>columns = columns self, rows = new_rows\<rparr>)))))))))"

fun apply_where_query :: "Table \<Rightarrow> where_query \<Rightarrow> error + Table" where
  "apply_where_query self (ColumnToLiteral q) = apply_column_to_literal_where_query self q"
| "apply_where_query self (ColumnToColumn q) = apply_column_to_column_where_query self q"

section \<open>Projection: \<^verbatim>\<open>Table.apply_select_queries\<close>\<close>

text \<open>
  An entry of the select list: \<^verbatim>\<open>select_query['source']['column']\<close> and
  \<^verbatim>\<open>select_query['as']\<close>.
\<close>

record select_query =
  sq_column :: column_ref
  sq_as :: "string option"

text \<open>
  The first loop.  \<^verbatim>\<open>found_names_by_col\<close> is a dict whose keys are column configurations:
  an assignment to a key it has replaces the value in place, an assignment to a new key adds
  the entry at the end.
\<close>

fun select_loop ::
    "Table \<Rightarrow> select_query list \<Rightarrow> ColumnConfig list \<Rightarrow> (ColumnConfig \<times> string) list
      \<Rightarrow> error + (ColumnConfig list \<times> (ColumnConfig \<times> string) list)" where
  "select_loop self [] found_columns found_names_by_col = Inr (found_columns, found_names_by_col)"
| "select_loop self (sq # sqs) found_columns found_names_by_col =
     (case col_config_by_column_ref self (sq_column sq) of
        Inl e \<Rightarrow> Inl e
      | Inr col_config \<Rightarrow>
          (let col_name = (case sq_as sq of
                             None \<Rightarrow> cc_name col_config
                           | Some a \<Rightarrow> if truthy (Some a) then a else cc_name col_config) in
           if col_name \<in> set (map snd found_names_by_col) then Inl (DuplicateSelectName col_name)
           else select_loop self sqs (found_columns @ [col_config])
                  (AList.update col_config col_name found_names_by_col)))"

text \<open>\<^verbatim>\<open>[existing_row[i] for i in indexes_to_include]\<close>\<close>

fun pick :: "row \<Rightarrow> nat list \<Rightarrow> error + row" where
  "pick existing_row [] = Inr []"
| "pick existing_row (i # indexes) =
     (case row_get existing_row i of
        Inl e \<Rightarrow> Inl e
      | Inr v \<Rightarrow> (case pick existing_row indexes of
                    Inl e \<Rightarrow> Inl e
                  | Inr vs \<Rightarrow> Inr (v # vs)))"

fun pick_rows :: "row list \<Rightarrow> nat list \<Rightarrow> row list \<Rightarrow> error + row list" where
  "pick_rows [] indexes_to_include new_rows = Inr new_rows"
| "pick_rows (existing_row # rest) indexes_to_include new_rows =
     (case pick existing_row indexes_to_include of
        Inl e \<Rightarrow> Inl e
      | Inr r \<Rightarrow> pick_rows rest indexes_to_include (new_rows @ [r]))"

definition filter_rows_by_column_indexes :: "Table \<Rightarrow> nat list \<Rightarrow> error + row list" where
  "filter_rows_by_column_indexes self indexes_to_include =
     pick_rows (rows self) indexes_to_include []"

text \<open>
  \<^verbatim>\<open>col_config._replace(index=i, name=found_names_by_col[col_config]) for i, col_config in
  enumerate(found_columns)\<close>
\<close>

fun replace_columns ::
    "(ColumnConfig \<times> string) list \<Rightarrow> (nat \<times> ColumnConfig) list \<Rightarrow> error + ColumnConfig list" where
  "replace_columns found_names_by_col [] = Inr []"
| "replace_columns found_names_by_col ((i, col_config) # rest) =
     (case map_of found_names_by_col col_config of
        None \<Rightarrow> Inl KeyError
      | Some n \<Rightarrow> (case replace_columns found_names_by_col rest of
                    Inl e \<Rightarrow> Inl e
                  | Inr cs \<Rightarrow> Inr (col_config\<lparr>cc_index := i, cc_name := n\<rparr> # cs)))"

definition apply_select_queries :: "Table \<Rightarrow> select_query list \<Rightarrow> error + Table" where
  "apply_select_queries self raw_select_queries =
     (case select_loop self raw_select_queries [] [] of
        Inl e \<Rightarrow> Inl e
      | Inr (found_columns, found_names_by_col) \<Rightarrow>
          (let found_indexes = map cc_index found_columns in
           case filter_rows_by_column_indexes self found_indexes of
             Inl e \<Rightarrow> Inl e
           | Inr new_rows \<Rightarrow>
               (case replace_columns found_names_by_col (enumerate 0 found_columns) of
                  Inl e \<Rightarrow> Inl e
                | Inr new_columns \<Rightarrow> Inr \<lparr>columns = new_columns, rows = new_rows\<rparr>)))"

section \<open>Notions of the statements\<close>

text \<open>
  The invariant of a relation: the column at offset \<open>i\<close> of the catalogue has position \<open>i\<close>, so
  that the positions are exactly \<open>0, \<dots>, N - 1\<close>, each once, and every row has \<open>N\<close> cells.
\<close>

definition relation_invariant :: "Table \<Rightarrow> bool" where
  "relation_invariant R =
     (map cc_index (columns R) = [0..<length (columns R)]
      \<and> list_all (\<lambda>r. length r = length (columns R)) (rows R))"

text \<open>
  The matching rule of the resolver, said once: the names are equal and, when the reference
  has a qualifier that is not the empty string, the qualifiers are equal.
\<close>

definition ref_matches :: "column_ref \<Rightarrow> ColumnConfig \<Rightarrow> bool" where
  "ref_matches column_ref c =
     (cc_name c = cr_name column_ref
      \<and> (case cr_table column_ref of None \<Rightarrow> True | Some q \<Rightarrow> q = [] \<or> cc_table c = q))"

text \<open>
  The matching rule in the words of the specification, for comparison with the code: the names
  are equal and, if the reference's qualifier is present, the qualifiers are equal.
\<close>

definition spec_matches :: "column_ref \<Rightarrow> ColumnConfig \<Rightarrow> bool" where
  "spec_matches column_ref c =
     (cc_name c = cr_name column_ref
      \<and> (case cr_table column_ref of None \<Rightarrow> True | Some q \<Rightarrow> cc_table c = q))"

text \<open>
  The column that the reference of a term resolves to: the first two steps of both filters
  (\<^verbatim>\<open>self.col_config_by_column_ref(term['column'])\<close>).
\<close>

definition column_of :: "Table \<Rightarrow> where_term \<Rightarrow> error + ColumnConfig" where
  "column_of R t =
     (case term_column t of Inl e \<Rightarrow> Inl e | Inr column_ref \<Rightarrow> col_config_by_column_ref R column_ref)"

definition ordering_ops :: "string set" where
  "ordering_ops = {''>'', ''>='', ''<'', ''<=''}"

text \<open>
  The comparison in the words of the specification, for comparison with the code: \<open>=\<close> and
  \<open>!=\<close> are equality and its negation, \<open>>\<close> and \<open><\<close> are the order of two integers or of
  two strings, and \<open>>=\<close> and \<open><=\<close> are \<open>>\<close> or \<open>=\<close> and \<open><\<close> or \<open>=\<close>.
\<close>

fun scalar_less :: "scalar \<Rightarrow> scalar \<Rightarrow> bool" where
  "scalar_less (VInt a) (VInt b) = (a < b)"
| "scalar_less (VStr a) (VStr b) = (a < b)"
| "scalar_less _ _ = False"

definition spec_compare :: "string \<Rightarrow> scalar \<Rightarrow> scalar \<Rightarrow> bool" where
  "spec_compare opr a b =
     (if opr = ''='' then a = b
      else if opr = ''!='' then a \<noteq> b
      else if opr = ''>'' then scalar_less b a
      else if opr = ''>='' then scalar_less b a \<or> a = b
      else if opr = ''<'' then scalar_less a b
      else if opr = ''<='' then scalar_less a b \<or> a = b
      else False)"

text \<open>
  A row satisfies the comparison of a predicate on a relation, in the words of the
  specification: for a column-to-literal predicate, \<open>compare(row[col.position], literal)\<close> if
  the column is on the left and \<open>compare(literal, row[col.position])\<close> if it is on the right,
  where \<open>col\<close> is the column that the predicate's reference resolves to and the literal is the
  value that the literal term carries under the tag of the column's type; for a
  column-to-column predicate, \<open>compare(row[left.position], row[right.position])\<close>.  (A predicate
  whose reference does not resolve, or whose literal has no such tag, has no comparison: no
  row satisfies it.)
\<close>

definition spec_satisfies :: "Table \<Rightarrow> where_query \<Rightarrow> row \<Rightarrow> bool" where
  "spec_satisfies R P r =
     (case P of
        ColumnToLiteral q \<Rightarrow>
          (case column_of R (column_term q) of
             Inl e \<Rightarrow> False
           | Inr col \<Rightarrow>
               (case lits (literal_term q) (''lit_'' @ cc_type col) of
                  None \<Rightarrow> False
                | Some literal \<Rightarrow>
                    (case column_side q of
                       Left \<Rightarrow> spec_compare (l_op q) (r ! cc_index col) literal
                     | Right \<Rightarrow> spec_compare (l_op q) literal (r ! cc_index col))))
      | ColumnToColumn p \<Rightarrow>
          (case column_of R (c_left p) of
             Inl e \<Rightarrow> False
           | Inr left_col \<Rightarrow>
               (case column_of R (c_right p) of
                  Inl e \<Rightarrow> False
                | Inr right_col \<Rightarrow>
                    spec_compare (c_op p) (r ! cc_index left_col) (r ! cc_index right_col))))"

text \<open>
  For the proofs about the filter loop: a test passes a row, a test raises on no row of a
  list, and a test is the one that a predicate runs on every relation with given columns.
\<close>

definition passes :: "(row \<Rightarrow> error + bool) \<Rightarrow> row \<Rightarrow> bool" where
  "passes test r = (test r = Inr True)"

definition defined_on :: "(row \<Rightarrow> error + bool) \<Rightarrow> row list \<Rightarrow> bool" where
  "defined_on test rs = list_all (\<lambda>r. \<exists>b. test r = Inr b) rs"

definition where_rel :: "ColumnConfig list \<Rightarrow> where_query \<Rightarrow> (row \<Rightarrow> error + bool) \<Rightarrow> bool" where
  "where_rel cols P test =
     (\<forall>rs. apply_where_query \<lparr>columns = cols, rows = rs\<rparr> P =
        (case filter_rows test rs [] of
           Inl e \<Rightarrow> Inl e
         | Inr new_rows \<Rightarrow> Inr \<lparr>columns = cols, rows = new_rows\<rparr>))"

section \<open>Examples\<close>

text \<open>
  References without and with a qualifier, the terms of a \<^verbatim>\<open>where\<close> entry
  (\<^verbatim>\<open>{'column': ...}\<close>, \<^verbatim>\<open>{'lit_int': i}\<close>, \<^verbatim>\<open>{'lit_str': s}\<close>), and the relations of the
  specification's examples: the source \<^verbatim>\<open>t\<close> with the columns \<^verbatim>\<open>(id, int)\<close> and
  \<^verbatim>\<open>(label, str)\<close> and three rows, and the two sources \<^verbatim>\<open>left\<close> and \<^verbatim>\<open>right\<close> with one
  column \<^verbatim>\<open>(v, int)\<close> and one row each.
\<close>

definition unqualified_ref :: "string \<Rightarrow> column_ref" where
  "unqualified_ref n = \<lparr>cr_table = None, cr_name = n\<rparr>"

definition qualified_ref :: "string \<Rightarrow> string \<Rightarrow> column_ref" where
  "qualified_ref t n = \<lparr>cr_table = Some t, cr_name = n\<rparr>"

definition column_term_of :: "column_ref \<Rightarrow> where_term" where
  "column_term_of column_ref = \<lparr>column = Some column_ref, lits = Map.empty\<rparr>"

definition lit_int :: "int \<Rightarrow> where_term" where
  "lit_int i = \<lparr>column = None, lits = [''lit_int'' \<mapsto> VInt i]\<rparr>"

definition lit_str :: "string \<Rightarrow> where_term" where
  "lit_str s = \<lparr>column = None, lits = [''lit_str'' \<mapsto> VStr s]\<rparr>"

definition example_t :: Table where
  "example_t =
     \<lparr>columns = [\<lparr>cc_table = ''t'', cc_name = ''id'', cc_type = ''int'', cc_index = 0\<rparr>,
                 \<lparr>cc_table = ''t'', cc_name = ''label'', cc_type = ''str'', cc_index = 1\<rparr>],
      rows = [[VInt 1, VStr ''a''], [VInt 2, VStr ''b''], [VInt 3, VStr ''c'']]\<rparr>"

definition example_left :: Table where
  "example_left =
     \<lparr>columns = [\<lparr>cc_table = ''left'', cc_name = ''v'', cc_type = ''int'', cc_index = 0\<rparr>],
      rows = [[VInt 1]]\<rparr>"

definition example_right :: Table where
  "example_right =
     \<lparr>columns = [\<lparr>cc_table = ''right'', cc_name = ''v'', cc_type = ''int'', cc_index = 0\<rparr>],
      rows = [[VInt 2]]\<rparr>"

section \<open>Properties\<close>

text \<open>The definitions that the evaluation of an example unfolds.\<close>

lemmas ex = unqualified_ref_def qualified_ref_def column_term_of_def lit_int_def lit_str_def
  example_t_def example_left_def example_right_def

lemmas ev = col_config_by_column_ref_def conditions_def row_get_def term_column_def term_lit_def
  column_term_def literal_term_def getattr_def has_key_def
  SUPPORTED_OPS_BY_COLUMN_TYPE_def OPERATOR_FUNCS_def
  column_literal_test_def literal_column_test_def column_column_test_def
  apply_column_to_literal_where_query_def apply_column_to_column_where_query_def
  apply_select_queries_def filter_rows_by_column_indexes_def merge_tables_def apply_as_exp_def
  equal_to_def not_equal_to_def greater_than_or_equal_to_def less_than_or_equal_to_def Let_def

subsection \<open>Aliasing\<close>

text \<open>
  Claim C8.  For every relation and every qualifier, the alias of the relation has the new
  qualifier on every column, and the names, the declared types and the positions of the
  columns, in their order, and the whole sequence of rows are those of the input.
\<close>

theorem alias_frame:
  "map cc_table (columns (apply_as_exp R q)) = replicate (length (columns R)) q
   \<and> map cc_name (columns (apply_as_exp R q)) = map cc_name (columns R)
   \<and> map cc_type (columns (apply_as_exp R q)) = map cc_type (columns R)
   \<and> map cc_index (columns (apply_as_exp R q)) = map cc_index (columns R)
   \<and> rows (apply_as_exp R q) = rows R"
  by (simp add: apply_as_exp_def comp_def map_replicate_const)

subsection \<open>Column resolution\<close>

text \<open>The loop collects, in order, the columns that match the reference.\<close>

lemma conditions_iff: "list_all id (conditions column_ref c) = ref_matches column_ref c"
  by (cases "cr_table column_ref") (auto simp: conditions_def ref_matches_def)

lemma find_columns_filter:
  "find_columns column_ref cols found = found @ filter (ref_matches column_ref) cols"
  by (induction cols arbitrary: found) (simp_all add: conditions_iff)

lemma resolve_cases:
  "col_config_by_column_ref R column_ref =
     (case filter (ref_matches column_ref) (columns R) of
        [] \<Rightarrow> Inl (ColumnNotFound column_ref)
      | [c] \<Rightarrow> Inr c
      | c # d # cs \<Rightarrow> Inl (AmbiguousColumn column_ref (map cc_table (c # d # cs))))"
  by (simp add: col_config_by_column_ref_def find_columns_filter Let_def split: list.splits)

lemma resolve_columns_only:
  "col_config_by_column_ref \<lparr>columns = columns R, rows = rs\<rparr> column_ref = col_config_by_column_ref R column_ref"
  by (simp add: col_config_by_column_ref_def)

text \<open>
  Claim C6, as amended.  The columns that match a reference are those whose name is the
  reference's name and, when the reference has a qualifier that is not the empty string, whose
  qualifier is the reference's.  If no column matches, resolution fails with
  \<open>ColumnNotFound\<close>; if more than one matches, it fails with \<open>AmbiguousColumn\<close>, which
  carries the qualifier of every matching column; if exactly one matches, it returns that
  column.  (The function returns a value and nothing else: the relation is not changed.)
\<close>

theorem resolve_outcomes:
  "(filter (ref_matches column_ref) (columns R) = []
      \<longrightarrow> col_config_by_column_ref R column_ref = Inl (ColumnNotFound column_ref))
   \<and> (1 < length (filter (ref_matches column_ref) (columns R))
      \<longrightarrow> col_config_by_column_ref R column_ref =
            Inl (AmbiguousColumn column_ref (map cc_table (filter (ref_matches column_ref) (columns R)))))
   \<and> (\<forall>c. filter (ref_matches column_ref) (columns R) = [c]
      \<longrightarrow> col_config_by_column_ref R column_ref = Inr c)"
  by (simp add: resolve_cases split: list.splits)

theorem resolve_outcomes_witness:
  "filter (ref_matches (unqualified_ref ''price'')) (columns example_t) = []
   \<and> col_config_by_column_ref example_t (unqualified_ref ''price'')
       = Inl (ColumnNotFound (unqualified_ref ''price''))
   \<and> 1 < length (filter (ref_matches (unqualified_ref ''v''))
                  (columns (merge_tables example_left example_right)))
   \<and> col_config_by_column_ref (merge_tables example_left example_right) (unqualified_ref ''v'')
       = Inl (AmbiguousColumn (unqualified_ref ''v'') [''left'', ''right''])
   \<and> filter (ref_matches (qualified_ref ''right'' ''v''))
        (columns (merge_tables example_left example_right))
       = [\<lparr>cc_table = ''right'', cc_name = ''v'', cc_type = ''int'', cc_index = 1\<rparr>]
   \<and> col_config_by_column_ref (merge_tables example_left example_right) (qualified_ref ''right'' ''v'')
       = Inr \<lparr>cc_table = ''right'', cc_name = ''v'', cc_type = ''int'', cc_index = 1\<rparr>"
  using resolve_outcomes [of "unqualified_ref ''price''" example_t]
    resolve_outcomes [of "unqualified_ref ''v''" "merge_tables example_left example_right"]
    resolve_outcomes [of "qualified_ref ''right'' ''v''" "merge_tables example_left example_right"]
  by (simp add: ex ref_matches_def merge_tables_def)

text \<open>
  Claim C6 as it is written fails for the qualifier \<^verbatim>\<open>''\<close>.  In the relation \<^verbatim>\<open>t\<close> no column has
  the name \<^verbatim>\<open>id\<close> and the qualifier \<^verbatim>\<open>''\<close>, so by the rule of the specification no column
  matches the reference \<^verbatim>\<open>{'table': '', 'name': 'id'}\<close>; the resolver returns the column
  \<^verbatim>\<open>t.id\<close>, not \<open>ColumnNotFound\<close>.
\<close>

theorem empty_qualifier_counterexample:
  "filter (spec_matches (qualified_ref '''' ''id'')) (columns example_t) = []
   \<and> col_config_by_column_ref example_t (qualified_ref '''' ''id'')
       = Inr \<lparr>cc_table = ''t'', cc_name = ''id'', cc_type = ''int'', cc_index = 0\<rparr>"
  by (simp add: ex ev spec_matches_def)

text \<open>
  Claim C10.  A reference whose qualifier is the empty string resolves as the reference with
  no qualifier does: both loops find the columns that have the reference's name, whatever their
  qualifier, and the outcomes are the same: the same column, or not found, or ambiguous with
  the same qualifiers named (each error carrying the reference it was raised for).
\<close>

theorem empty_qualifier_is_unqualified:
  "find_columns \<lparr>cr_table = Some [], cr_name = n\<rparr> (columns R) [] = filter (\<lambda>c. cc_name c = n) (columns R)
   \<and> find_columns \<lparr>cr_table = None, cr_name = n\<rparr> (columns R) [] = filter (\<lambda>c. cc_name c = n) (columns R)
   \<and> (case col_config_by_column_ref R \<lparr>cr_table = None, cr_name = n\<rparr> of
         Inr c \<Rightarrow> col_config_by_column_ref R \<lparr>cr_table = Some [], cr_name = n\<rparr> = Inr c
       | Inl (ColumnNotFound r) \<Rightarrow>
           col_config_by_column_ref R \<lparr>cr_table = Some [], cr_name = n\<rparr>
             = Inl (ColumnNotFound \<lparr>cr_table = Some [], cr_name = n\<rparr>)
       | Inl (AmbiguousColumn r ts) \<Rightarrow>
           col_config_by_column_ref R \<lparr>cr_table = Some [], cr_name = n\<rparr>
             = Inl (AmbiguousColumn \<lparr>cr_table = Some [], cr_name = n\<rparr> ts)
       | Inl other \<Rightarrow> False)"
proof -
  have a: "ref_matches \<lparr>cr_table = Some [], cr_name = n\<rparr> = (\<lambda>c. cc_name c = n)"
    by (rule ext) (simp add: ref_matches_def)
  have b: "ref_matches \<lparr>cr_table = None, cr_name = n\<rparr> = (\<lambda>c. cc_name c = n)"
    by (rule ext) (simp add: ref_matches_def)
  show ?thesis
    by (simp add: find_columns_filter resolve_cases a b split: list.splits)
qed

subsection \<open>Cross product\<close>

text \<open>The two loops build the rows block by block.\<close>

lemma merge_inner_eq: "merge_inner one_row two_rows acc = acc @ map (\<lambda>two_row. one_row @ two_row) two_rows"
  by (induction two_rows arbitrary: acc) simp_all

lemma merge_outer_eq:
  "merge_outer one_rows two_rows acc =
     acc @ concat (map (\<lambda>one_row. map (\<lambda>two_row. one_row @ two_row) two_rows) one_rows)"
  by (induction one_rows arbitrary: acc) (simp_all add: merge_inner_eq)

lemma length_concat_blocks:
  "length (concat (map (\<lambda>x. map (g x) ys) xs)) = length xs * length ys"
  by (induction xs) simp_all

lemma nth_concat_blocks:
  "i < length xs \<Longrightarrow> j < length ys \<Longrightarrow>
     concat (map (\<lambda>x. map (g x) ys) xs) ! (i * length ys + j) = g (xs ! i) (ys ! j)"
proof (induction xs arbitrary: i)
  case Nil
  then show ?case by simp
next
  case (Cons x xs)
  show ?case
  proof (cases i)
    case 0
    with Cons.prems show ?thesis by (simp add: nth_append)
  next
    case (Suc k)
    with Cons.prems have "k < length xs" by simp
    from Cons.IH [OF this Cons.prems(2)] Suc show ?thesis
      by (simp add: nth_append add.assoc)
  qed
qed

text \<open>
  Claim C4.  The merge of \<open>A\<close> (\<open>m\<close> rows) and \<open>B\<close> (\<open>n\<close> rows) has \<open>m * n\<close> rows and as many
  columns as \<open>A\<close> and \<open>B\<close> together: the columns of \<open>A\<close>, then those of \<open>B\<close> with the number of
  columns of \<open>A\<close> added to their positions and their names, qualifiers and types unchanged.
  Its rows are, for every row of \<open>A\<close> in order and every row of \<open>B\<close> in order, the left row
  followed by the right row: row \<open>i * n + j\<close> is row \<open>i\<close> of \<open>A\<close> followed by row \<open>j\<close> of \<open>B\<close>.
\<close>

theorem merge_tables_cross_product:
  "length (rows (merge_tables A B)) = length (rows A) * length (rows B)
   \<and> length (columns (merge_tables A B)) = length (columns A) + length (columns B)
   \<and> take (length (columns A)) (columns (merge_tables A B)) = columns A
   \<and> map cc_index (drop (length (columns A)) (columns (merge_tables A B)))
       = map (\<lambda>c. cc_index c + length (columns A)) (columns B)
   \<and> map cc_name (drop (length (columns A)) (columns (merge_tables A B))) = map cc_name (columns B)
   \<and> map cc_table (drop (length (columns A)) (columns (merge_tables A B))) = map cc_table (columns B)
   \<and> map cc_type (drop (length (columns A)) (columns (merge_tables A B))) = map cc_type (columns B)
   \<and> rows (merge_tables A B)
       = concat (map (\<lambda>left_row. map (\<lambda>right_row. left_row @ right_row) (rows B)) (rows A))
   \<and> (\<forall>i j. i < length (rows A) \<longrightarrow> j < length (rows B) \<longrightarrow>
         rows (merge_tables A B) ! (i * length (rows B) + j) = rows A ! i @ rows B ! j)"
  by (simp add: merge_tables_def merge_outer_eq length_concat_blocks nth_concat_blocks comp_def)

theorem merge_tables_cross_product_witness:
  "1 < length (rows example_t) \<and> 2 < length (rows example_t)
   \<and> rows (merge_tables example_t example_t) ! (1 * length (rows example_t) + 2)
       = rows example_t ! 1 @ rows example_t ! 2"
proof -
  have "\<forall>i j. i < length (rows example_t) \<longrightarrow> j < length (rows example_t) \<longrightarrow>
          rows (merge_tables example_t example_t) ! (i * length (rows example_t) + j)
            = rows example_t ! i @ rows example_t ! j"
    using merge_tables_cross_product [of example_t example_t] by blast
  then have "1 < length (rows example_t) \<longrightarrow> 2 < length (rows example_t) \<longrightarrow>
          rows (merge_tables example_t example_t) ! (1 * length (rows example_t) + 2)
            = rows example_t ! 1 @ rows example_t ! 2"
    by blast
  then show ?thesis by (simp add: example_t_def)
qed

subsection \<open>Filters\<close>

text \<open>
  The loop returns if and only if the test raises on no row, and then it has appended the rows
  that pass, in order.
\<close>

lemma filter_rows_defined:
  "defined_on test rs \<Longrightarrow> filter_rows test rs acc = Inr (acc @ filter (passes test) rs)"
proof (induction rs arbitrary: acc)
  case Nil
  then show ?case by simp
next
  case (Cons r rs)
  from Cons.prems obtain b where b: "test r = Inr b" and rest: "defined_on test rs"
    by (auto simp: defined_on_def)
  show ?case using Cons.IH [OF rest] b by (simp add: passes_def)
qed

lemma filter_rows_Inr:
  "filter_rows test rs acc = Inr out \<Longrightarrow> defined_on test rs"
proof (induction rs arbitrary: acc)
  case Nil
  then show ?case by (simp add: defined_on_def)
next
  case (Cons r rs)
  then show ?case by (auto simp: defined_on_def split: sum.splits)
qed

lemma filter_rows_iff:
  "filter_rows test rs acc = Inr out \<longleftrightarrow> defined_on test rs \<and> out = acc @ filter (passes test) rs"
  using filter_rows_defined filter_rows_Inr by (metis sum.inject(2))

lemma defined_on_filter: "defined_on test rs \<Longrightarrow> defined_on test (filter p rs)"
  by (simp add: defined_on_def list_all_iff)

text \<open>What a filter that returns has checked before its loop.\<close>

lemma column_to_literal_success:
  assumes "apply_column_to_literal_where_query R q = Inr R'"
  shows "\<exists>column_ref col_config ops operator_func literal_value.
           term_column (column_term q) = Inr column_ref
         \<and> col_config_by_column_ref R column_ref = Inr col_config
         \<and> has_key (literal_term q) (''lit_'' @ cc_type col_config)
         \<and> SUPPORTED_OPS_BY_COLUMN_TYPE (cc_type col_config) = Some ops
         \<and> l_op q \<in> set ops
         \<and> OPERATOR_FUNCS (l_op q) = Some operator_func
         \<and> term_lit (literal_term q) (''lit_'' @ cc_type col_config) = Inr literal_value"
  using assms
  by (auto simp: apply_column_to_literal_where_query_def Let_def
        split: sum.splits option.splits if_splits)

lemma column_to_column_success:
  assumes "apply_column_to_column_where_query R q = Inr R'"
  shows "\<exists>left_ref left_col right_ref right_col ops operator_func.
           term_column (c_left q) = Inr left_ref
         \<and> col_config_by_column_ref R left_ref = Inr left_col
         \<and> term_column (c_right q) = Inr right_ref
         \<and> col_config_by_column_ref R right_ref = Inr right_col
         \<and> cc_type left_col = cc_type right_col
         \<and> SUPPORTED_OPS_BY_COLUMN_TYPE (cc_type left_col) = Some ops
         \<and> c_op q \<in> set ops
         \<and> OPERATOR_FUNCS (c_op q) = Some operator_func"
  using assms
  by (auto simp: apply_column_to_column_where_query_def Let_def
        split: sum.splits option.splits if_splits)

text \<open>
  Each function of the operator table computes the comparison of the specification whenever
  it returns, and a test that returns has read the cells at the positions of the columns.
\<close>

lemma greater_than_spec: "greater_than a b = Inr x \<Longrightarrow> x = scalar_less b a"
  by (cases a; cases b) auto

lemma less_than_spec: "less_than a b = Inr x \<Longrightarrow> x = scalar_less a b"
  by (cases a; cases b) auto

lemma operator_func_spec:
  assumes "OPERATOR_FUNCS opr = Some operator_func" and "operator_func a b = Inr x"
  shows "x = spec_compare opr a b"
proof -
  from assms(1) consider
      "opr = ''=''" "operator_func = equal_to"
    | "opr = ''!=''" "operator_func = not_equal_to"
    | "opr = ''>''" "operator_func = greater_than"
    | "opr = ''>=''" "operator_func = greater_than_or_equal_to"
    | "opr = ''<''" "operator_func = less_than"
    | "opr = ''<=''" "operator_func = less_than_or_equal_to"
    by (auto simp: OPERATOR_FUNCS_def split: if_splits)
  then show ?thesis
  proof cases
    case 1
    with assms(2) show ?thesis by (auto simp: equal_to_def spec_compare_def)
  next
    case 2
    with assms(2) show ?thesis by (auto simp: not_equal_to_def spec_compare_def)
  next
    case 3
    with assms(2) show ?thesis by (simp add: spec_compare_def greater_than_spec)
  next
    case 4
    with assms(2) show ?thesis
      by (auto simp: greater_than_or_equal_to_def equal_to_def spec_compare_def
            split: sum.splits if_splits dest: greater_than_spec)
  next
    case 5
    with assms(2) show ?thesis by (simp add: spec_compare_def less_than_spec)
  next
    case 6
    with assms(2) show ?thesis
      by (auto simp: less_than_or_equal_to_def equal_to_def spec_compare_def
            split: sum.splits if_splits dest: less_than_spec)
  qed
qed

lemma row_get_Inr: "row_get r i = Inr v \<Longrightarrow> v = r ! i"
  by (simp add: row_get_def split: if_splits)

lemma column_literal_test_spec:
  assumes "OPERATOR_FUNCS opr = Some operator_func"
    and "column_literal_test operator_func col literal r = Inr x"
  shows "x = spec_compare opr (r ! cc_index col) literal"
  using assms(2) operator_func_spec [OF assms(1)]
  by (auto simp: column_literal_test_def split: sum.splits dest: row_get_Inr)

lemma literal_column_test_spec:
  assumes "OPERATOR_FUNCS opr = Some operator_func"
    and "literal_column_test operator_func col literal r = Inr x"
  shows "x = spec_compare opr literal (r ! cc_index col)"
  using assms(2) operator_func_spec [OF assms(1)]
  by (auto simp: literal_column_test_def split: sum.splits dest: row_get_Inr)

lemma column_column_test_spec:
  assumes "OPERATOR_FUNCS opr = Some operator_func"
    and "column_column_test operator_func left_col right_col r = Inr x"
  shows "x = spec_compare opr (r ! cc_index left_col) (r ! cc_index right_col)"
  using assms(2) operator_func_spec [OF assms(1)]
  by (auto simp: column_column_test_def split: sum.splits dest: row_get_Inr)

text \<open>
  The checks read the columns only, so a predicate that returns on a relation runs one and the
  same test on the rows of every relation with these columns; where the test returns, it
  returns the comparison of the specification.
\<close>

lemma where_success_test:
  assumes "apply_where_query R P = Inr R'"
  shows "\<exists>test. where_rel (columns R) P test
           \<and> (\<forall>r x. test r = Inr x \<longrightarrow> x = spec_satisfies R P r)"
proof (cases P)
  case (ColumnToLiteral q)
  with assms have "apply_column_to_literal_where_query R q = Inr R'" by simp
  from column_to_literal_success [OF this]
  obtain column_ref col_config ops operator_func literal_value where
    f: "term_column (column_term q) = Inr column_ref"
       "col_config_by_column_ref R column_ref = Inr col_config"
       "has_key (literal_term q) (''lit_'' @ cc_type col_config)"
       "SUPPORTED_OPS_BY_COLUMN_TYPE (cc_type col_config) = Some ops"
       "l_op q \<in> set ops"
       "OPERATOR_FUNCS (l_op q) = Some operator_func"
       "term_lit (literal_term q) (''lit_'' @ cc_type col_config) = Inr literal_value"
    by blast
  let ?test = "case column_side q of
             Left \<Rightarrow> column_literal_test operator_func col_config literal_value
           | Right \<Rightarrow> literal_column_test operator_func col_config literal_value"
  have w: "where_rel (columns R) P ?test"
    unfolding where_rel_def using f ColumnToLiteral
    by (simp add: apply_column_to_literal_where_query_def resolve_columns_only split: sum.splits)
  from f(1,2) have c: "column_of R (column_term q) = Inr col_config"
    by (simp add: column_of_def)
  from f(7) have l: "lits (literal_term q) (''lit_'' @ cc_type col_config) = Some literal_value"
    by (simp add: term_lit_def split: option.splits)
  have s: "\<forall>r x. ?test r = Inr x \<longrightarrow> x = spec_satisfies R P r"
  proof (intro allI impI)
    fix r x assume t: "?test r = Inr x"
    show "x = spec_satisfies R P r"
    proof (cases "column_side q")
      case Left
      with t have "column_literal_test operator_func col_config literal_value r = Inr x" by simp
      from column_literal_test_spec [OF f(6) this] show ?thesis
        using c l by (simp add: spec_satisfies_def ColumnToLiteral Left)
    next
      case Right
      with t have "literal_column_test operator_func col_config literal_value r = Inr x" by simp
      from literal_column_test_spec [OF f(6) this] show ?thesis
        using c l by (simp add: spec_satisfies_def ColumnToLiteral Right)
    qed
  qed
  from w s show ?thesis by blast
next
  case (ColumnToColumn q)
  with assms have "apply_column_to_column_where_query R q = Inr R'" by simp
  from column_to_column_success [OF this]
  obtain left_ref left_col right_ref right_col ops operator_func where
    f: "term_column (c_left q) = Inr left_ref"
       "col_config_by_column_ref R left_ref = Inr left_col"
       "term_column (c_right q) = Inr right_ref"
       "col_config_by_column_ref R right_ref = Inr right_col"
       "cc_type left_col = cc_type right_col"
       "SUPPORTED_OPS_BY_COLUMN_TYPE (cc_type left_col) = Some ops"
       "c_op q \<in> set ops"
       "OPERATOR_FUNCS (c_op q) = Some operator_func"
    by blast
  have w: "where_rel (columns R) P (column_column_test operator_func left_col right_col)"
    unfolding where_rel_def using f ColumnToColumn
    by (simp add: apply_column_to_column_where_query_def resolve_columns_only split: sum.splits)
  from f(1,2) have cl: "column_of R (c_left q) = Inr left_col" by (simp add: column_of_def)
  from f(3,4) have cr: "column_of R (c_right q) = Inr right_col" by (simp add: column_of_def)
  have s: "\<forall>r x. column_column_test operator_func left_col right_col r = Inr x
             \<longrightarrow> x = spec_satisfies R P r"
  proof (intro allI impI)
    fix r x assume "column_column_test operator_func left_col right_col r = Inr x"
    from column_column_test_spec [OF f(8) this] show "x = spec_satisfies R P r"
      using cl cr by (simp add: spec_satisfies_def ColumnToColumn)
  qed
  from w s show ?thesis by blast
qed

lemma passes_spec:
  assumes "\<forall>r x. test r = Inr x \<longrightarrow> x = spec_satisfies R P r" and "defined_on test rs"
  shows "filter (passes test) rs = filter (spec_satisfies R P) rs"
proof (rule filter_cong)
  fix r assume "r \<in> set rs"
  with assms(2) obtain x where x: "test r = Inr x" by (auto simp: defined_on_def list_all_iff)
  with assms(1) have "x = spec_satisfies R P r" by blast
  with x show "passes test r = spec_satisfies R P r" by (auto simp: passes_def)
qed simp

lemma where_rel_apply:
  assumes "where_rel (columns R) P test"
  shows "apply_where_query R P =
           (case filter_rows test (rows R) [] of
              Inl e \<Rightarrow> Inl e
            | Inr new_rows \<Rightarrow> Inr \<lparr>columns = columns R, rows = new_rows\<rparr>)"
proof -
  have "\<lparr>columns = columns R, rows = rows R\<rparr> = R" by simp
  with assms [unfolded where_rel_def, rule_format, of "rows R"] show ?thesis by simp
qed

lemma where_rel_result:
  assumes "where_rel (columns R) P test" and "apply_where_query R P = Inr R'"
  shows "defined_on test (rows R) \<and> R' = \<lparr>columns = columns R, rows = filter (passes test) (rows R)\<rparr>"
  using assms(2) unfolding where_rel_apply [OF assms(1)]
  by (auto simp: filter_rows_iff split: sum.splits)

lemma where_rel_defined:
  assumes "where_rel (columns R) P test" and "defined_on test (rows R)"
  shows "apply_where_query R P = Inr \<lparr>columns = columns R, rows = filter (passes test) (rows R)\<rparr>"
  unfolding where_rel_apply [OF assms(1)]
  by (simp add: filter_rows_defined [OF assms(2)])

text \<open>
  Claim C5.  If two predicates \<open>P1\<close> and \<open>P2\<close> both evaluate successfully on a relation \<open>R\<close>,
  then the filter by \<open>P1\<close> leaves the columns as they are and its rows are a subsequence of the
  rows of \<open>R\<close> in their order, namely the rows that satisfy the comparison of \<open>P1\<close>; and \<open>P2\<close>
  after \<open>P1\<close> and \<open>P1\<close> after \<open>P2\<close> both evaluate successfully, to the same relation, whose rows
  are exactly the rows of \<open>R\<close> that satisfy both comparisons, in their order.  The comparison
  is the one of the specification, \<open>spec_satisfies\<close>: the operator of the predicate applied to
  the cell at the position of the resolved column and the literal, in the order of the sides,
  or to the cells at the positions of the two resolved columns.
\<close>

theorem filter_stable_and_conjunctive:
  "(apply_where_query R P1 = Inr R1
      \<longrightarrow> columns R1 = columns R \<and> subseq (rows R1) (rows R)
          \<and> rows R1 = filter (spec_satisfies R P1) (rows R))
   \<and> (apply_where_query R P1 = Inr R1 \<and> apply_where_query R P2 = Inr R2
      \<longrightarrow> (\<exists>R12. apply_where_query R1 P2 = Inr R12
               \<and> apply_where_query R2 P1 = Inr R12
               \<and> columns R12 = columns R
               \<and> rows R12 = filter (\<lambda>r. spec_satisfies R P1 r \<and> spec_satisfies R P2 r) (rows R)))"
proof (rule conjI; rule impI)
  assume a1: "apply_where_query R P1 = Inr R1"
  from where_success_test [OF a1] obtain t1 where
    t1: "where_rel (columns R) P1 t1"
    and s1: "\<forall>r x. t1 r = Inr x \<longrightarrow> x = spec_satisfies R P1 r"
    by blast
  from where_rel_result [OF t1 a1]
  have d1: "defined_on t1 (rows R)"
    and R1: "R1 = \<lparr>columns = columns R, rows = filter (passes t1) (rows R)\<rparr>"
    by simp_all
  have "rows R1 = filter (spec_satisfies R P1) (rows R)"
    by (simp add: R1 passes_spec [OF s1 d1])
  moreover have "columns R1 = columns R" and "subseq (rows R1) (rows R)"
    by (simp_all add: R1)
  ultimately show "columns R1 = columns R \<and> subseq (rows R1) (rows R)
          \<and> rows R1 = filter (spec_satisfies R P1) (rows R)"
    by simp
next
  assume a: "apply_where_query R P1 = Inr R1 \<and> apply_where_query R P2 = Inr R2"
  then have a1: "apply_where_query R P1 = Inr R1" and a2: "apply_where_query R P2 = Inr R2"
    by simp_all
  from where_success_test [OF a1] obtain t1 where
    t1: "where_rel (columns R) P1 t1"
    and s1: "\<forall>r x. t1 r = Inr x \<longrightarrow> x = spec_satisfies R P1 r"
    by blast
  from where_success_test [OF a2] obtain t2 where
    t2: "where_rel (columns R) P2 t2"
    and s2: "\<forall>r x. t2 r = Inr x \<longrightarrow> x = spec_satisfies R P2 r"
    by blast
  from where_rel_result [OF t1 a1]
  have d1: "defined_on t1 (rows R)"
    and R1: "R1 = \<lparr>columns = columns R, rows = filter (passes t1) (rows R)\<rparr>"
    by simp_all
  from where_rel_result [OF t2 a2]
  have d2: "defined_on t2 (rows R)"
    and R2: "R2 = \<lparr>columns = columns R, rows = filter (passes t2) (rows R)\<rparr>"
    by simp_all
  have c1: "columns R1 = columns R" and c2: "columns R2 = columns R" by (simp_all add: R1 R2)
  have t2': "where_rel (columns R1) P2 t2" and t1': "where_rel (columns R2) P1 t1"
    using t1 t2 by (simp_all add: c1 c2)
  have d2': "defined_on t2 (rows R1)" and d1': "defined_on t1 (rows R2)"
    using d1 d2 by (simp_all add: R1 R2 defined_on_filter)
  have both: "filter (\<lambda>r. passes t1 r \<and> passes t2 r) (rows R)
      = filter (\<lambda>r. spec_satisfies R P1 r \<and> spec_satisfies R P2 r) (rows R)"
  proof -
    have "filter (\<lambda>r. passes t1 r \<and> passes t2 r) (rows R)
        = filter (passes t2) (filter (passes t1) (rows R))"
      by simp
    also have "\<dots> = filter (passes t2) (filter (spec_satisfies R P1) (rows R))"
      by (simp only: passes_spec [OF s1 d1])
    also have "\<dots> = filter (spec_satisfies R P1) (filter (passes t2) (rows R))"
      by (simp add: conj_commute)
    also have "\<dots> = filter (spec_satisfies R P1) (filter (spec_satisfies R P2) (rows R))"
      by (simp only: passes_spec [OF s2 d2])
    also have "\<dots> = filter (\<lambda>r. spec_satisfies R P1 r \<and> spec_satisfies R P2 r) (rows R)"
      by (simp add: conj_commute)
    finally show ?thesis .
  qed
  have comm: "filter (\<lambda>r. passes t2 r \<and> passes t1 r) (rows R)
      = filter (\<lambda>r. passes t1 r \<and> passes t2 r) (rows R)"
    by (rule filter_cong) auto
  have a12: "apply_where_query R1 P2
      = Inr \<lparr>columns = columns R, rows = filter (\<lambda>r. passes t1 r \<and> passes t2 r) (rows R)\<rparr>"
    unfolding where_rel_defined [OF t2' d2'] by (simp add: R1)
  have a21: "apply_where_query R2 P1
      = Inr \<lparr>columns = columns R, rows = filter (\<lambda>r. passes t1 r \<and> passes t2 r) (rows R)\<rparr>"
    unfolding where_rel_defined [OF t1' d1'] by (simp add: R2 comm)
  show "\<exists>R12. apply_where_query R1 P2 = Inr R12
               \<and> apply_where_query R2 P1 = Inr R12
               \<and> columns R12 = columns R
               \<and> rows R12 = filter (\<lambda>r. spec_satisfies R P1 r \<and> spec_satisfies R P2 r) (rows R)"
    using a12 a21 by (simp add: both)
qed

theorem filter_stable_and_conjunctive_witness:
  "apply_where_query (merge_tables example_t example_right)
       (ColumnToColumn \<lparr>c_op = ''<'', c_left = column_term_of (unqualified_ref ''id''),
                         c_right = column_term_of (unqualified_ref ''v'')\<rparr>)
     = Inr \<lparr>columns = columns (merge_tables example_t example_right),
            rows = [[VInt 1, VStr ''a'', VInt 2]]\<rparr>
   \<and> apply_where_query (merge_tables example_t example_right)
       (ColumnToLiteral \<lparr>l_op = ''!='', l_left = column_term_of (unqualified_ref ''label''),
                          l_right = lit_str ''c'', column_side = Left, literal_side = Right\<rparr>)
     = Inr \<lparr>columns = columns (merge_tables example_t example_right),
            rows = [[VInt 1, VStr ''a'', VInt 2], [VInt 2, VStr ''b'', VInt 2]]\<rparr>
   \<and> subseq [[VInt 1, VStr ''a'', VInt 2]] (rows (merge_tables example_t example_right))
   \<and> (\<exists>R12. apply_where_query
               \<lparr>columns = columns (merge_tables example_t example_right),
                rows = [[VInt 1, VStr ''a'', VInt 2]]\<rparr>
               (ColumnToLiteral \<lparr>l_op = ''!='', l_left = column_term_of (unqualified_ref ''label''),
                          l_right = lit_str ''c'', column_side = Left, literal_side = Right\<rparr>)
             = Inr R12
           \<and> apply_where_query
               \<lparr>columns = columns (merge_tables example_t example_right),
                rows = [[VInt 1, VStr ''a'', VInt 2], [VInt 2, VStr ''b'', VInt 2]]\<rparr>
               (ColumnToColumn \<lparr>c_op = ''<'', c_left = column_term_of (unqualified_ref ''id''),
                         c_right = column_term_of (unqualified_ref ''v'')\<rparr>)
             = Inr R12
           \<and> rows R12 = [[VInt 1, VStr ''a'', VInt 2]])"
proof -
  let ?R = "merge_tables example_t example_right"
  let ?P1 = "ColumnToColumn \<lparr>c_op = ''<'', c_left = column_term_of (unqualified_ref ''id''),
                         c_right = column_term_of (unqualified_ref ''v'')\<rparr>"
  let ?P2 = "ColumnToLiteral \<lparr>l_op = ''!='', l_left = column_term_of (unqualified_ref ''label''),
                          l_right = lit_str ''c'', column_side = Left, literal_side = Right\<rparr>"
  let ?R1 = "\<lparr>columns = columns ?R, rows = [[VInt 1, VStr ''a'', VInt 2]]\<rparr>"
  let ?R2 = "\<lparr>columns = columns ?R,
              rows = [[VInt 1, VStr ''a'', VInt 2], [VInt 2, VStr ''b'', VInt 2]]\<rparr>"
  have h1: "apply_where_query ?R ?P1 = Inr ?R1"
    by (simp add: ex ev)
  have h2: "apply_where_query ?R ?P2 = Inr ?R2"
    by (simp add: ex ev)
  have k: "filter (\<lambda>r. spec_satisfies ?R ?P1 r \<and> spec_satisfies ?R ?P2 r) (rows ?R)
      = [[VInt 1, VStr ''a'', VInt 2]]"
    by (simp add: spec_satisfies_def spec_compare_def column_of_def ex ev)
  note f = filter_stable_and_conjunctive [of ?R ?P1 ?R1 ?P2 ?R2]
  from f h1 have "subseq (rows ?R1) (rows ?R)" by blast
  then have sub: "subseq [[VInt 1, VStr ''a'', VInt 2]] (rows ?R)" by simp
  from f h1 h2 obtain R12 where
    r1: "apply_where_query ?R1 ?P2 = Inr R12"
    and r2: "apply_where_query ?R2 ?P1 = Inr R12"
    and r3: "rows R12 = filter (\<lambda>r. spec_satisfies ?R ?P1 r \<and> spec_satisfies ?R ?P2 r) (rows ?R)"
    by blast
  from r3 k have r3': "rows R12 = [[VInt 1, VStr ''a'', VInt 2]]" by simp
  from r1 r2 r3' have "\<exists>R12. apply_where_query ?R1 ?P2 = Inr R12
           \<and> apply_where_query ?R2 ?P1 = Inr R12
           \<and> rows R12 = [[VInt 1, VStr ''a'', VInt 2]]"
    by blast
  with h1 h2 sub show ?thesis by blast
qed

subsection \<open>Type and operator guards\<close>

lemma supported_str: "SUPPORTED_OPS_BY_COLUMN_TYPE ''str'' = Some [''='', ''!='']"
  by (simp add: SUPPORTED_OPS_BY_COLUMN_TYPE_def)

lemma column_to_literal_mismatch:
  assumes "column_of R (column_term q) = Inr col"
    and "\<not> has_key (literal_term q) (''lit_'' @ cc_type col)"
  shows "apply_column_to_literal_where_query R q = Inl TypeMismatch"
  using assms
  by (auto simp: column_of_def apply_column_to_literal_where_query_def split: sum.splits)

lemma column_to_literal_unsupported:
  assumes "column_of R (column_term q) = Inr col"
    and "has_key (literal_term q) (''lit_'' @ cc_type col)"
    and "SUPPORTED_OPS_BY_COLUMN_TYPE (cc_type col) = Some ops"
    and "l_op q \<notin> set ops"
  shows "apply_column_to_literal_where_query R q = Inl (UnsupportedOperator (l_op q) (cc_type col))"
  using assms
  by (auto simp: column_of_def apply_column_to_literal_where_query_def split: sum.splits)

lemma column_to_column_mismatch:
  assumes "column_of R (c_left p) = Inr left_col"
    and "column_of R (c_right p) = Inr right_col"
    and "cc_type left_col \<noteq> cc_type right_col"
  shows "apply_column_to_column_where_query R p = Inl TypeMismatch"
  using assms
  by (auto simp: column_of_def apply_column_to_column_where_query_def split: sum.splits)

lemma column_to_column_unsupported:
  assumes "column_of R (c_left p) = Inr left_col"
    and "column_of R (c_right p) = Inr right_col"
    and "cc_type left_col = cc_type right_col"
    and "SUPPORTED_OPS_BY_COLUMN_TYPE (cc_type left_col) = Some ops"
    and "c_op p \<notin> set ops"
  shows "apply_column_to_column_where_query R p = Inl (UnsupportedOperator (c_op p) (cc_type left_col))"
  using assms
  by (auto simp: column_of_def apply_column_to_column_where_query_def split: sum.splits)

text \<open>
  Claim C7, as amended.  The type check comes before the operator check.  A column-to-literal
  predicate with one of \<open>>\<close>, \<open>>=\<close>, \<open><\<close>, \<open><=\<close> whose column resolves to a \<open>str\<close> column and
  whose literal is tagged \<open>lit_str\<close>, and a column-to-column predicate with one of these
  operators whose two columns resolve to \<open>str\<close> columns, fail with \<open>UnsupportedOperator\<close>.  A
  column-to-literal predicate whose literal is tagged with a type other than the declared type
  of the resolved column, and a column-to-column predicate whose two resolved columns have
  different declared types, fail with \<open>TypeMismatch\<close>, whatever the operator.  A failure is the
  whole result: no relation is returned.
\<close>

theorem type_operator_guards:
  "(column_of R (column_term q) = Inr col \<and> cc_type col = ''str''
      \<and> has_key (literal_term q) ''lit_str'' \<and> l_op q \<in> ordering_ops
     \<longrightarrow> apply_column_to_literal_where_query R q = Inl (UnsupportedOperator (l_op q) ''str''))
   \<and> (column_of R (c_left p) = Inr left_col \<and> column_of R (c_right p) = Inr right_col
      \<and> cc_type left_col = ''str'' \<and> cc_type right_col = ''str'' \<and> c_op p \<in> ordering_ops
     \<longrightarrow> apply_column_to_column_where_query R p = Inl (UnsupportedOperator (c_op p) ''str''))
   \<and> (column_of R (column_term q) = Inr col
      \<and> lits (literal_term q) = [''lit_'' @ t \<mapsto> v] \<and> t \<noteq> cc_type col
     \<longrightarrow> apply_column_to_literal_where_query R q = Inl TypeMismatch)
   \<and> (column_of R (c_left p) = Inr left_col \<and> column_of R (c_right p) = Inr right_col
      \<and> cc_type left_col \<noteq> cc_type right_col
     \<longrightarrow> apply_column_to_column_where_query R p = Inl TypeMismatch)"
proof (intro conjI impI)
  assume h: "column_of R (column_term q) = Inr col \<and> cc_type col = ''str''
      \<and> has_key (literal_term q) ''lit_str'' \<and> l_op q \<in> ordering_ops"
  then have "l_op q \<notin> set [''='', ''!='']" by (auto simp: ordering_ops_def)
  with h column_to_literal_unsupported [of R q col "[''='', ''!='']"]
  show "apply_column_to_literal_where_query R q = Inl (UnsupportedOperator (l_op q) ''str'')"
    by (simp add: supported_str)
next
  assume h: "column_of R (c_left p) = Inr left_col \<and> column_of R (c_right p) = Inr right_col
      \<and> cc_type left_col = ''str'' \<and> cc_type right_col = ''str'' \<and> c_op p \<in> ordering_ops"
  then have "c_op p \<notin> set [''='', ''!='']" by (auto simp: ordering_ops_def)
  with h column_to_column_unsupported [of R p left_col right_col "[''='', ''!='']"]
  show "apply_column_to_column_where_query R p = Inl (UnsupportedOperator (c_op p) ''str'')"
    by (simp add: supported_str)
next
  assume h: "column_of R (column_term q) = Inr col
      \<and> lits (literal_term q) = [''lit_'' @ t \<mapsto> v] \<and> t \<noteq> cc_type col"
  then have "\<not> has_key (literal_term q) (''lit_'' @ cc_type col)"
    by (auto simp: has_key_def)
  with h show "apply_column_to_literal_where_query R q = Inl TypeMismatch"
    by (simp add: column_to_literal_mismatch)
next
  assume "column_of R (c_left p) = Inr left_col \<and> column_of R (c_right p) = Inr right_col
      \<and> cc_type left_col \<noteq> cc_type right_col"
  then show "apply_column_to_column_where_query R p = Inl TypeMismatch"
    by (simp add: column_to_column_mismatch)
qed

theorem type_operator_guards_witness:
  "column_of example_t (column_term_of (unqualified_ref ''label''))
     = Inr \<lparr>cc_table = ''t'', cc_name = ''label'', cc_type = ''str'', cc_index = 1\<rparr>
   \<and> column_of example_t (column_term_of (unqualified_ref ''id''))
     = Inr \<lparr>cc_table = ''t'', cc_name = ''id'', cc_type = ''int'', cc_index = 0\<rparr>
   \<and> ''>'' \<in> ordering_ops
   \<and> has_key (lit_str ''a'') ''lit_str''
   \<and> lits (lit_str ''a'') = [''lit_'' @ ''str'' \<mapsto> VStr ''a'']
   \<and> apply_column_to_literal_where_query example_t
       \<lparr>l_op = ''>'', l_left = column_term_of (unqualified_ref ''label''), l_right = lit_str ''a'',
        column_side = Left, literal_side = Right\<rparr>
       = Inl (UnsupportedOperator ''>'' ''str'')
   \<and> apply_column_to_column_where_query example_t
       \<lparr>c_op = ''>'', c_left = column_term_of (unqualified_ref ''label''),
        c_right = column_term_of (unqualified_ref ''label'')\<rparr>
       = Inl (UnsupportedOperator ''>'' ''str'')
   \<and> apply_column_to_literal_where_query example_t
       \<lparr>l_op = ''='', l_left = column_term_of (unqualified_ref ''id''), l_right = lit_str ''a'',
        column_side = Left, literal_side = Right\<rparr>
       = Inl TypeMismatch
   \<and> apply_column_to_column_where_query example_t
       \<lparr>c_op = ''='', c_left = column_term_of (unqualified_ref ''id''),
        c_right = column_term_of (unqualified_ref ''label'')\<rparr>
       = Inl TypeMismatch"
proof -
  let ?label = "\<lparr>cc_table = ''t'', cc_name = ''label'', cc_type = ''str'', cc_index = 1\<rparr>"
  let ?id = "\<lparr>cc_table = ''t'', cc_name = ''id'', cc_type = ''int'', cc_index = 0\<rparr>"
  have l: "column_of example_t (column_term_of (unqualified_ref ''label'')) = Inr ?label"
    and i: "column_of example_t (column_term_of (unqualified_ref ''id'')) = Inr ?id"
    by (simp_all add: ex column_of_def term_column_def col_config_by_column_ref_def conditions_def)
  have o: "''>'' \<in> ordering_ops" by (simp add: ordering_ops_def)
  have k: "has_key (lit_str ''a'') ''lit_str''"
    and m: "lits (lit_str ''a'') = [''lit_'' @ ''str'' \<mapsto> VStr ''a'']"
    by (simp_all add: lit_str_def has_key_def)
  note g = type_operator_guards [where R = example_t and t = "''str''" and v = "VStr ''a''"]
  from l o k
    g [of "\<lparr>l_op = ''>'', l_left = column_term_of (unqualified_ref ''label''), l_right = lit_str ''a'',
            column_side = Left, literal_side = Right\<rparr>" ?label
          "\<lparr>c_op = ''>'', c_left = column_term_of (unqualified_ref ''label''),
            c_right = column_term_of (unqualified_ref ''label'')\<rparr>" ?label ?label]
  have a: "apply_column_to_literal_where_query example_t
       \<lparr>l_op = ''>'', l_left = column_term_of (unqualified_ref ''label''), l_right = lit_str ''a'',
        column_side = Left, literal_side = Right\<rparr>
       = Inl (UnsupportedOperator ''>'' ''str'')"
    and b: "apply_column_to_column_where_query example_t
       \<lparr>c_op = ''>'', c_left = column_term_of (unqualified_ref ''label''),
        c_right = column_term_of (unqualified_ref ''label'')\<rparr>
       = Inl (UnsupportedOperator ''>'' ''str'')"
    by (simp_all add: literal_term_def column_term_def getattr_def)
  from l i m
    g [of "\<lparr>l_op = ''='', l_left = column_term_of (unqualified_ref ''id''), l_right = lit_str ''a'',
            column_side = Left, literal_side = Right\<rparr>" ?id
          "\<lparr>c_op = ''='', c_left = column_term_of (unqualified_ref ''id''),
            c_right = column_term_of (unqualified_ref ''label'')\<rparr>" ?id ?label]
  have c: "apply_column_to_literal_where_query example_t
       \<lparr>l_op = ''='', l_left = column_term_of (unqualified_ref ''id''), l_right = lit_str ''a'',
        column_side = Left, literal_side = Right\<rparr>
       = Inl TypeMismatch"
    and d: "apply_column_to_column_where_query example_t
       \<lparr>c_op = ''='', c_left = column_term_of (unqualified_ref ''id''),
        c_right = column_term_of (unqualified_ref ''label'')\<rparr>
       = Inl TypeMismatch"
    by (simp_all add: literal_term_def column_term_def getattr_def)
  from l i o k m a b c d show ?thesis by simp
qed

text \<open>
  Claim C7 as it is written fails where both guards apply.  The predicate \<^verbatim>\<open>label > 1\<close> on the
  relation \<^verbatim>\<open>t\<close> has an ordering operator and a column that resolves to a \<open>str\<close> column, and
  it fails with \<open>TypeMismatch\<close>, not with \<open>UnsupportedOperator\<close>.
\<close>

theorem guard_order_counterexample:
  "column_of example_t (column_term_of (unqualified_ref ''label''))
     = Inr \<lparr>cc_table = ''t'', cc_name = ''label'', cc_type = ''str'', cc_index = 1\<rparr>
   \<and> ''>'' \<in> ordering_ops
   \<and> apply_column_to_literal_where_query example_t
       \<lparr>l_op = ''>'', l_left = column_term_of (unqualified_ref ''label''), l_right = lit_int 1,
        column_side = Left, literal_side = Right\<rparr>
       = Inl TypeMismatch"
  by (simp add: ex ev column_of_def ordering_ops_def)

subsection \<open>Construction of a column-to-literal predicate\<close>

text \<open>
  Without the key \<^verbatim>\<open>'column'\<close> in the left term the constructor raises, whatever the right
  term is: the third test asks whether \<^verbatim>\<open>'column'\<close> is a substring of \<^verbatim>\<open>'right'\<close>.
\<close>

lemma new_without_left_column:
  "\<not> has_key left ''column'' \<Longrightarrow> ColumnToLiteralWhere_new opr left right = Inl MalformedPredicate"
  by (simp add: ColumnToLiteralWhere_new_def)

text \<open>
  The filter itself handles a predicate with the column on the right: for \<^verbatim>\<open>1 < id\<close> on the
  relation \<^verbatim>\<open>t\<close> it keeps the rows where \<^verbatim>\<open>compare(literal, row[col.index])\<close> is true.
\<close>

lemma column_on_the_right_evaluates:
  "apply_column_to_literal_where_query example_t
     \<lparr>l_op = ''<'', l_left = lit_int 1, l_right = column_term_of (unqualified_ref ''id''),
      column_side = Right, literal_side = Left\<rparr>
   = Inr \<lparr>columns = columns example_t, rows = [[VInt 2, VStr ''b''], [VInt 3, VStr ''c'']]\<rparr>"
  by (simp add: ex ev)

text \<open>
  Claim C1 (the code departs from it).  The entry \<^verbatim>\<open>{'op': '<', 'left': {'lit_int': 1},
  'right': {'column': {'table': None, 'name': 'id'}}}\<close> has one literal side and one column
  side; the claim has the predicate built with the column on the right.  The constructor
  raises the error of a malformed expression, and so does \<^verbatim>\<open>build_where_queries\<close> on the
  list of this one entry.
\<close>

theorem literal_left_column_right_rejected:
  "ColumnToLiteralWhere_new ''<'' (lit_int 1) (column_term_of (unqualified_ref ''id'')) = Inl MalformedPredicate
   \<and> build_where_queries
       [\<lparr>w_op = ''<'', w_left = lit_int 1, w_right = column_term_of (unqualified_ref ''id'')\<rparr>] []
       = Inl MalformedPredicate"
  by (simp add: ColumnToLiteralWhere_new_def has_key_def ex)

subsection \<open>Projection\<close>

text \<open>
  Claim C2 (the code departs from it).  In the select list \<^verbatim>\<open>id as x, id as y\<close> on the
  relation \<^verbatim>\<open>t\<close> each entry resolves to one column and the display names \<^verbatim>\<open>x\<close> and \<^verbatim>\<open>y\<close>
  are distinct; the claim has the output columns named \<^verbatim>\<open>x\<close> and \<^verbatim>\<open>y\<close>.  Both output columns
  are named \<^verbatim>\<open>y\<close>: the names are kept under the resolved column, and the second entry
  replaces the name of the first.
\<close>

theorem select_same_column_twice:
  "apply_select_queries example_t
     [\<lparr>sq_column = unqualified_ref ''id'', sq_as = Some ''x''\<rparr>,
      \<lparr>sq_column = unqualified_ref ''id'', sq_as = Some ''y''\<rparr>]
   = Inr \<lparr>columns = [\<lparr>cc_table = ''t'', cc_name = ''y'', cc_type = ''int'', cc_index = 0\<rparr>,
                      \<lparr>cc_table = ''t'', cc_name = ''y'', cc_type = ''int'', cc_index = 1\<rparr>],
           rows = [[VInt 1, VInt 1], [VInt 2, VInt 2], [VInt 3, VInt 3]]\<rparr>"
  by (simp add: ex ev enumerate_eq_zip)

text \<open>
  Claim C3 (the code departs from it).  In the select list \<^verbatim>\<open>id as x, id as y, id as x\<close> the
  first and the third entry have the same display name; the claim has the projection fail
  with \<open>DuplicateSelectName\<close>.  When the third entry is checked the only name kept is \<^verbatim>\<open>y\<close>,
  and the projection returns a relation with three columns named \<^verbatim>\<open>x\<close>.
\<close>

theorem select_repeated_name_accepted:
  "apply_select_queries example_t
     [\<lparr>sq_column = unqualified_ref ''id'', sq_as = Some ''x''\<rparr>,
      \<lparr>sq_column = unqualified_ref ''id'', sq_as = Some ''y''\<rparr>,
      \<lparr>sq_column = unqualified_ref ''id'', sq_as = Some ''x''\<rparr>]
   = Inr \<lparr>columns = [\<lparr>cc_table = ''t'', cc_name = ''x'', cc_type = ''int'', cc_index = 0\<rparr>,
                      \<lparr>cc_table = ''t'', cc_name = ''x'', cc_type = ''int'', cc_index = 1\<rparr>,
                      \<lparr>cc_table = ''t'', cc_name = ''x'', cc_type = ''int'', cc_index = 2\<rparr>],
           rows = [[VInt 1, VInt 1, VInt 1], [VInt 2, VInt 2, VInt 2], [VInt 3, VInt 3, VInt 3]]\<rparr>"
  by (simp add: ex ev enumerate_eq_zip)

subsection \<open>The invariant\<close>

lemma merge_tables_invariant:
  assumes "relation_invariant A" and "relation_invariant B"
  shows "relation_invariant (merge_tables A B)"
proof -
  have "map cc_index (map (\<lambda>col. col\<lparr>cc_index := cc_index col + length (columns A)\<rparr>) (columns B))
      = map (\<lambda>i. i + length (columns A)) (map cc_index (columns B))"
    by (simp add: comp_def)
  with assms have "map cc_index (columns (merge_tables A B))
      = [0..<length (columns A)] @ map (\<lambda>i. i + length (columns A)) [0..<length (columns B)]"
    by (simp add: relation_invariant_def merge_tables_def)
  also have "\<dots> = [0..<length (columns A)] @ [length (columns A)..<length (columns A) + length (columns B)]"
    by (simp add: map_add_upt add.commute)
  also have "\<dots> = [0..<length (columns A) + length (columns B)]"
    by (simp add: upt_add_eq_append [of 0 "length (columns A)" "length (columns B)"])
  finally have c: "map cc_index (columns (merge_tables A B)) = [0..<length (columns (merge_tables A B))]"
    by (simp add: merge_tables_def)
  have r: "list_all (\<lambda>r. length r = length (columns (merge_tables A B))) (rows (merge_tables A B))"
    using assms by (auto simp: relation_invariant_def merge_tables_def merge_outer_eq list_all_iff)
  from c r show ?thesis by (simp add: relation_invariant_def)
qed

lemma where_invariant:
  assumes "relation_invariant R" and "apply_where_query R P = Inr R'"
  shows "relation_invariant R'"
proof -
  from where_success_test [OF assms(2)] obtain test where t: "where_rel (columns R) P test"
    by blast
  from where_rel_result [OF t assms(2)] assms(1) show ?thesis
    by (auto simp: relation_invariant_def list_all_iff)
qed

lemma replace_columns_index:
  "replace_columns names ixs = Inr cols \<Longrightarrow> map cc_index cols = map fst ixs"
proof (induction ixs arbitrary: cols)
  case Nil
  then show ?case by simp
next
  case (Cons ic ixs)
  obtain i c where ic: "ic = (i, c)" by (cases ic)
  from Cons.prems obtain n cs where
    cs: "replace_columns names ixs = Inr cs"
    and cols: "cols = c\<lparr>cc_index := i, cc_name := n\<rparr> # cs"
    by (auto simp: ic split: option.splits sum.splits)
  from Cons.IH [OF cs] show ?case by (simp add: cols ic)
qed

lemma pick_length: "pick r indexes = Inr vs \<Longrightarrow> length vs = length indexes"
  by (induction indexes arbitrary: vs) (auto split: sum.splits)

lemma pick_rows_length:
  "pick_rows rs indexes acc = Inr out \<Longrightarrow> list_all (\<lambda>r. length r = length indexes) acc
     \<Longrightarrow> list_all (\<lambda>r. length r = length indexes) out"
proof (induction rs arbitrary: acc)
  case Nil
  then show ?case by simp
next
  case (Cons r rs)
  then show ?case by (auto split: sum.splits dest: pick_length)
qed

lemma select_invariant:
  assumes "apply_select_queries R S = Inr R'"
  shows "relation_invariant R'"
proof -
  from assms obtain found names new_rows new_columns where
    l: "select_loop R S [] [] = Inr (found, names)"
    and r: "pick_rows (rows R) (map cc_index found) [] = Inr new_rows"
    and c: "replace_columns names (enumerate 0 found) = Inr new_columns"
    and R': "R' = \<lparr>columns = new_columns, rows = new_rows\<rparr>"
    unfolding apply_select_queries_def filter_rows_by_column_indexes_def Let_def
    by (simp split: sum.splits prod.splits)
  from replace_columns_index [OF c] have i: "map cc_index new_columns = [0..<length found]" by simp
  from arg_cong [OF i, of length] have n: "length new_columns = length found" by simp
  from pick_rows_length [OF r] have "list_all (\<lambda>r. length r = length found) new_rows" by simp
  with i n show ?thesis by (simp add: relation_invariant_def R')
qed

lemma alias_invariant: "relation_invariant R \<Longrightarrow> relation_invariant (apply_as_exp R n)"
  by (simp add: relation_invariant_def apply_as_exp_def comp_def)

text \<open>
  Claim C9.  Every operation of the algebra preserves the invariant of relations: if \<open>A\<close> and
  \<open>B\<close> satisfy it, so do their merge, every relation that a column-to-literal filter, a
  column-to-column filter or a projection of \<open>A\<close> returns, and every alias of \<open>A\<close>.
\<close>

theorem algebra_preserves_invariant:
  assumes "relation_invariant A" and "relation_invariant B"
  shows "relation_invariant (merge_tables A B)
       \<and> (\<forall>q A'. apply_column_to_literal_where_query A q = Inr A' \<longrightarrow> relation_invariant A')
       \<and> (\<forall>p A'. apply_column_to_column_where_query A p = Inr A' \<longrightarrow> relation_invariant A')
       \<and> (\<forall>S A'. apply_select_queries A S = Inr A' \<longrightarrow> relation_invariant A')
       \<and> (\<forall>n. relation_invariant (apply_as_exp A n))"
proof (intro conjI allI impI)
  show "relation_invariant (merge_tables A B)" by (rule merge_tables_invariant [OF assms])
next
  fix q A' assume "apply_column_to_literal_where_query A q = Inr A'"
  then have "apply_where_query A (ColumnToLiteral q) = Inr A'" by simp
  from where_invariant [OF assms(1) this] show "relation_invariant A'" .
next
  fix p A' assume "apply_column_to_column_where_query A p = Inr A'"
  then have "apply_where_query A (ColumnToColumn p) = Inr A'" by simp
  from where_invariant [OF assms(1) this] show "relation_invariant A'" .
next
  fix S A' assume "apply_select_queries A S = Inr A'"
  then show "relation_invariant A'" by (rule select_invariant)
next
  fix n show "relation_invariant (apply_as_exp A n)" by (rule alias_invariant [OF assms(1)])
qed

theorem algebra_preserves_invariant_witness:
  "relation_invariant example_t \<and> relation_invariant example_right
   \<and> relation_invariant (merge_tables example_t example_right)
   \<and> apply_column_to_literal_where_query example_t
        \<lparr>l_op = ''>'', l_left = column_term_of (unqualified_ref ''id''), l_right = lit_int 1,
         column_side = Left, literal_side = Right\<rparr>
       = Inr \<lparr>columns = columns example_t, rows = [[VInt 2, VStr ''b''], [VInt 3, VStr ''c'']]\<rparr>
   \<and> relation_invariant
        \<lparr>columns = columns example_t, rows = [[VInt 2, VStr ''b''], [VInt 3, VStr ''c'']]\<rparr>
   \<and> apply_column_to_column_where_query example_t
        \<lparr>c_op = ''!='', c_left = column_term_of (unqualified_ref ''id''),
         c_right = column_term_of (qualified_ref ''t'' ''id'')\<rparr>
       = Inr \<lparr>columns = columns example_t, rows = []\<rparr>
   \<and> relation_invariant \<lparr>columns = columns example_t, rows = []\<rparr>
   \<and> apply_select_queries
        \<lparr>columns = columns example_t, rows = [[VInt 2, VStr ''b''], [VInt 3, VStr ''c'']]\<rparr>
        [\<lparr>sq_column = unqualified_ref ''id'', sq_as = Some ''x''\<rparr>,
         \<lparr>sq_column = unqualified_ref ''label'', sq_as = None\<rparr>]
       = Inr \<lparr>columns = [\<lparr>cc_table = ''t'', cc_name = ''x'', cc_type = ''int'', cc_index = 0\<rparr>,
                          \<lparr>cc_table = ''t'', cc_name = ''label'', cc_type = ''str'', cc_index = 1\<rparr>],
               rows = [[VInt 2, VStr ''b''], [VInt 3, VStr ''c'']]\<rparr>
   \<and> relation_invariant
        \<lparr>columns = [\<lparr>cc_table = ''t'', cc_name = ''x'', cc_type = ''int'', cc_index = 0\<rparr>,
                    \<lparr>cc_table = ''t'', cc_name = ''label'', cc_type = ''str'', cc_index = 1\<rparr>],
         rows = [[VInt 2, VStr ''b''], [VInt 3, VStr ''c'']]\<rparr>
   \<and> relation_invariant (apply_as_exp example_t ''u'')"
proof -
  let ?T1 = "\<lparr>columns = columns example_t, rows = [[VInt 2, VStr ''b''], [VInt 3, VStr ''c'']]\<rparr>"
  have a: "relation_invariant example_t" and b: "relation_invariant example_right"
    by (simp_all add: relation_invariant_def ex upt_rec)
  have a1: "relation_invariant ?T1"
    by (simp add: relation_invariant_def ex upt_rec)
  have q: "apply_column_to_literal_where_query example_t
        \<lparr>l_op = ''>'', l_left = column_term_of (unqualified_ref ''id''), l_right = lit_int 1,
         column_side = Left, literal_side = Right\<rparr> = Inr ?T1"
    by (simp add: ex ev)
  have p: "apply_column_to_column_where_query example_t
        \<lparr>c_op = ''!='', c_left = column_term_of (unqualified_ref ''id''),
         c_right = column_term_of (qualified_ref ''t'' ''id'')\<rparr>
       = Inr \<lparr>columns = columns example_t, rows = []\<rparr>"
    by (simp add: ex ev)
  have s: "apply_select_queries ?T1
        [\<lparr>sq_column = unqualified_ref ''id'', sq_as = Some ''x''\<rparr>,
         \<lparr>sq_column = unqualified_ref ''label'', sq_as = None\<rparr>]
       = Inr \<lparr>columns = [\<lparr>cc_table = ''t'', cc_name = ''x'', cc_type = ''int'', cc_index = 0\<rparr>,
                          \<lparr>cc_table = ''t'', cc_name = ''label'', cc_type = ''str'', cc_index = 1\<rparr>],
               rows = [[VInt 2, VStr ''b''], [VInt 3, VStr ''c'']]\<rparr>"
    by (simp add: ex ev enumerate_eq_zip)
  note t = algebra_preserves_invariant [OF a b]
  note t1 = algebra_preserves_invariant [OF a1 b]
  from t have m: "relation_invariant (merge_tables example_t example_right)" by blast
  from t q have iq: "relation_invariant ?T1" by blast
  from t p have ip: "relation_invariant \<lparr>columns = columns example_t, rows = []\<rparr>" by blast
  from t1 s have isel: "relation_invariant
        \<lparr>columns = [\<lparr>cc_table = ''t'', cc_name = ''x'', cc_type = ''int'', cc_index = 0\<rparr>,
                    \<lparr>cc_table = ''t'', cc_name = ''label'', cc_type = ''str'', cc_index = 1\<rparr>],
         rows = [[VInt 2, VStr ''b''], [VInt 3, VStr ''c'']]\<rparr>" by blast
  from t have ia: "relation_invariant (apply_as_exp example_t ''u'')" by blast
  from a b m q iq p ip s isel ia show ?thesis by blast
qed

end
